theory Spec2Isabelle
  imports Complex_Main
begin

section \<open>Python values, exceptions and output lines\<close>

text \<open>
  The handler of \<^verbatim>\<open>main.py\<close> receives whatever \<^verbatim>\<open>request.get_json(silent=True)\<close>
  yields: \<^verbatim>\<open>None\<close>, or any value a JSON text parses to.  A dict is an association list
  from its (string) keys to its values; its keys are distinct, so \<open>map_of\<close> is its lookup.
  A float is a real number here; the only thing the program asks of one is whether it is zero.
\<close>

datatype pyval =
    PNone
  | PBool bool
  | PInt int
  | PFloat real
  | PStr string
  | PList "pyval list"
  | PDict "(string \<times> pyval) list"

text \<open>Python's truth value of an object, as \<^verbatim>\<open>if x:\<close> and \<^verbatim>\<open>not x\<close> test it.\<close>

fun truthy :: "pyval \<Rightarrow> bool" where
  "truthy PNone = False"
| "truthy (PBool b) = b"
| "truthy (PInt i) = (i \<noteq> 0)"
| "truthy (PFloat x) = (x \<noteq> 0)"
| "truthy (PStr s) = (s \<noteq> [])"
| "truthy (PList xs) = (xs \<noteq> [])"
| "truthy (PDict kvs) = (kvs \<noteq> [])"

fun type_name :: "pyval \<Rightarrow> string" where
  "type_name PNone = ''NoneType''"
| "type_name (PBool b) = ''bool''"
| "type_name (PInt i) = ''int''"
| "type_name (PFloat x) = ''float''"
| "type_name (PStr s) = ''str''"
| "type_name (PList xs) = ''list''"
| "type_name (PDict kvs) = ''dict''"

text \<open>
  An exception object (an instance of a subclass of \<^verbatim>\<open>Exception\<close>, which is what
  \<^verbatim>\<open>except Exception\<close> catches): its class and the text \<^verbatim>\<open>str(e)\<close> gives.
\<close>

datatype pyexc = PyExc (exc_class: string) (exc_str: string)

definition RuntimeError :: "string \<Rightarrow> pyexc" where
  "RuntimeError msg = PyExc ''RuntimeError'' msg"

definition ValueError :: "string \<Rightarrow> pyexc" where
  "ValueError msg = PyExc ''ValueError'' msg"

definition AttributeError :: "string \<Rightarrow> pyexc" where
  "AttributeError msg = PyExc ''AttributeError'' msg"

text \<open>
  A printed line is an f-string: its literal segments and its string-valued fields are
  \<open>Lit\<close> pieces, a field holding any other value is a \<open>Fmt\<close> piece (the text that
  formatting gives for that value is the Python runtime's business).
\<close>

datatype piece = Lit string | Fmt pyval

type_synonym line = "piece list"

definition apos :: string where
  "apos = [CHR 0x27]"

definition newline :: string where
  "newline = [CHR 0x0A]"

section \<open>The provider's resources and the world\<close>

record disk =
  name :: string
  self_link :: string

record snapshot =
  source_disk :: string
  snap_name :: string
  storage_locations :: "string list"

record warning =
  code :: string
  message :: string

text \<open>
  An extended operation handle: what \<^verbatim>\<open>result(timeout=t)\<close> does (raise or return), and
  the attributes the waiter reads once that call has returned.  An error code of 0 is
  the unset one.
\<close>

record operation =
  result :: "int \<Rightarrow> pyexc + pyval"
  error_code :: int
  error_message :: string
  op_name :: string
  exception :: "pyexc option"
  warnings :: "warning list"

datatype month =
    January | February | March | April | May | June
  | July | August | September | October | November | December

record datetime =
  year :: nat
  month :: month

text \<open>
  Every interaction with an external collaborator (constructing the scoped client and
  calling it, waiting on an operation, reading the clock) is recorded, in order.
\<close>

datatype call =
    DisksList pyval pyval
  | RegionDisksList pyval pyval
  | DisksGet pyval pyval string
  | RegionDisksGet pyval pyval string
  | SnapshotsInsert pyval snapshot
  | OperationResult string int
  | SnapshotsGet pyval string
  | DatetimeNow

record world =
  calls :: "call list"
  stderr :: "line list"
  stdout :: "line list"

text \<open>
  The provider and the clock are parameters: each answer may depend on everything that
  was called before, and each call either raises or returns.
\<close>

record provider =
  disks_list :: "call list \<Rightarrow> pyval \<Rightarrow> pyval \<Rightarrow> pyexc + disk list"
  region_disks_list :: "call list \<Rightarrow> pyval \<Rightarrow> pyval \<Rightarrow> pyexc + disk list"
  disks_get :: "call list \<Rightarrow> pyval \<Rightarrow> pyval \<Rightarrow> string \<Rightarrow> pyexc + disk"
  region_disks_get :: "call list \<Rightarrow> pyval \<Rightarrow> pyval \<Rightarrow> string \<Rightarrow> pyexc + disk"
  snapshots_insert :: "call list \<Rightarrow> pyval \<Rightarrow> snapshot \<Rightarrow> pyexc + operation"
  snapshots_get :: "call list \<Rightarrow> pyval \<Rightarrow> string \<Rightarrow> pyexc + snapshot"
  now :: "call list \<Rightarrow> datetime"

definition perform :: "call \<Rightarrow> 'a \<Rightarrow> world \<Rightarrow> 'a \<times> world" where
  "perform c r w = (r, w\<lparr>calls := calls w @ [c]\<rparr>)"

definition print_stderr :: "line \<Rightarrow> world \<Rightarrow> world" where
  "print_stderr l w = w\<lparr>stderr := stderr w @ [l]\<rparr>"

definition print_stdout :: "line \<Rightarrow> world \<Rightarrow> world" where
  "print_stdout l w = w\<lparr>stdout := stdout w @ [l]\<rparr>"

section \<open>wait_for_extended_operation\<close>

definition warning_line :: "warning \<Rightarrow> line" where
  "warning_line wn = [Lit '' - '', Lit (code wn), Lit '': '', Lit (message wn)]"

fun print_warnings :: "warning list \<Rightarrow> world \<Rightarrow> world" where
  "print_warnings [] w = w"
| "print_warnings (wn # wns) w = print_warnings wns (print_stderr (warning_line wn) w)"

definition wait_for_extended_operation ::
  "operation \<Rightarrow> string \<Rightarrow> int \<Rightarrow> world \<Rightarrow> (pyexc + pyval) \<times> world" where
  "wait_for_extended_operation operation verbose_name timeout w =
     (case perform (OperationResult (op_name operation) timeout) (result operation timeout) w of
        (Inl e, w1) \<Rightarrow>
          (Inl e, print_stderr [Lit ''Operation failed: '', Lit (exc_str e)] w1)
      | (Inr res, w1) \<Rightarrow>
          if error_code operation \<noteq> 0 then
            (let w2 = print_stderr
                   [Lit ''Error during '', Lit verbose_name, Lit '': [Code: '',
                    Fmt (PInt (error_code operation)), Lit '']: '',
                    Lit (error_message operation)] w1;
                 w3 = print_stderr [Lit ''Operation ID: '', Lit (op_name operation)] w2
             in (Inl (case exception operation of
                        Some e \<Rightarrow> e
                      | None \<Rightarrow> RuntimeError (error_message operation)), w3))
          else
            (Inr res,
             if warnings operation \<noteq> [] then
               print_warnings (warnings operation)
                 (print_stderr [Lit ''Warnings during '', Lit verbose_name,
                                Lit ('':'' @ newline)] w1)
             else w1))"

section \<open>list_disks\<close>

definition list_disks ::
  "provider \<Rightarrow> pyval \<Rightarrow> pyval \<Rightarrow> pyval \<Rightarrow> world \<Rightarrow> (pyexc + disk list) \<times> world" where
  "list_disks env project zone region w =
     (if truthy zone then
        perform (DisksList project zone) (disks_list env (calls w) project zone) w
      else if truthy region then
        perform (RegionDisksList project region)
          (region_disks_list env (calls w) project region) w
      else (Inl (ValueError ''Either `zone` or `region` must be provided.''), w))"

section \<open>create_snapshot\<close>

definition create_snapshot ::
  "provider \<Rightarrow> pyval \<Rightarrow> string \<Rightarrow> string \<Rightarrow> pyval \<Rightarrow> pyval \<Rightarrow> string option \<Rightarrow> pyval \<Rightarrow>
   world \<Rightarrow> (pyexc + snapshot) \<times> world" where
  "create_snapshot env project disk_nm snapshot_nm zone region location disk_project w =
     (if zone = PNone \<and> region = PNone then
        (Inl (RuntimeError
           ''You need to specify `zone` or `region` for this function to work.''), w)
      else if zone \<noteq> PNone \<and> region \<noteq> PNone then
        (Inl (RuntimeError (''You can'' @ apos @ ''t set both `zone` and `region` parameters.'')), w)
      else
        (let disk_project1 = (if disk_project = PNone then project else disk_project) in
         case (if zone \<noteq> PNone then
                 perform (DisksGet disk_project1 zone disk_nm)
                   (disks_get env (calls w) disk_project1 zone disk_nm) w
               else
                 perform (RegionDisksGet disk_project1 region disk_nm)
                   (region_disks_get env (calls w) disk_project1 region disk_nm) w) of
           (Inl e, w1) \<Rightarrow> (Inl e, w1)
         | (Inr d, w1) \<Rightarrow>
             (let snap = \<lparr>source_disk = self_link d, snap_name = snapshot_nm,
                          storage_locations =
                            (case location of
                               None \<Rightarrow> []
                             | Some l \<Rightarrow> if l \<noteq> [] then [l] else [])\<rparr> in
              case perform (SnapshotsInsert project snap)
                     (snapshots_insert env (calls w1) project snap) w1 of
                (Inl e, w2) \<Rightarrow> (Inl e, w2)
              | (Inr operation, w2) \<Rightarrow>
                  (case wait_for_extended_operation operation
                          (''snapshot creation for '' @ disk_nm) 300 w2 of
                     (Inl e, w3) \<Rightarrow> (Inl e, w3)
                   | (Inr res, w3) \<Rightarrow>
                       perform (SnapshotsGet project snapshot_nm)
                         (snapshots_get env (calls w3) project snapshot_nm) w3))))"

section \<open>create_snapshots_for_all_disks\<close>

text \<open>
  \<^verbatim>\<open>strftime('%B')\<close> in the C locale, \<^verbatim>\<open>str.lower()\<close> on ASCII letters, and
  \<^verbatim>\<open>strftime('%Y')\<close> as the C library of the Linux runtime prints it: the year in
  decimal, with no padding.
\<close>

fun month_name :: "month \<Rightarrow> string" where
  "month_name January = ''January''"
| "month_name February = ''February''"
| "month_name March = ''March''"
| "month_name April = ''April''"
| "month_name May = ''May''"
| "month_name June = ''June''"
| "month_name July = ''July''"
| "month_name August = ''August''"
| "month_name September = ''September''"
| "month_name October = ''October''"
| "month_name November = ''November''"
| "month_name December = ''December''"

definition strftime_B :: "datetime \<Rightarrow> string" where
  "strftime_B t = month_name (month t)"

definition lower_char :: "char \<Rightarrow> char" where
  "lower_char c =
     (case map_of (zip ''ABCDEFGHIJKLMNOPQRSTUVWXYZ'' ''abcdefghijklmnopqrstuvwxyz'') c of
        Some l \<Rightarrow> l
      | None \<Rightarrow> c)"

definition lower :: "string \<Rightarrow> string" where
  "lower s = map lower_char s"

definition digit_char :: "nat \<Rightarrow> char" where
  "digit_char n = ''0123456789'' ! (n mod 10)"

fun decimal :: "nat \<Rightarrow> string" where
  "decimal n =
     (if n < 10 then [digit_char n] else decimal (n div 10) @ [digit_char (n mod 10)])"

declare decimal.simps [simp del]

definition strftime_Y :: "datetime \<Rightarrow> string" where
  "strftime_Y t = decimal (year t)"

definition datetime_now :: "provider \<Rightarrow> world \<Rightarrow> datetime \<times> world" where
  "datetime_now env w = perform DatetimeNow (now env (calls w)) w"

text \<open>The two lines the loop prints to the standard output.\<close>

definition created_line :: "string \<Rightarrow> string \<Rightarrow> line" where
  "created_line snapshot_nm disk_nm =
     [Lit (''Snapshot '' @ apos), Lit snapshot_nm,
      Lit (apos @ '' created successfully for disk '' @ apos), Lit disk_nm,
      Lit (apos @ ''.'')]"

definition failed_line :: "string \<Rightarrow> pyexc \<Rightarrow> line" where
  "failed_line disk_nm e =
     [Lit (''Snapshot creation failed for disk '' @ apos), Lit disk_nm,
      Lit (apos @ '': ''), Lit (exc_str e)]"

text \<open>The body of the loop below the computed name: the \<^verbatim>\<open>try\<close> statement.\<close>

definition try_create_snapshot ::
  "provider \<Rightarrow> pyval \<Rightarrow> pyval \<Rightarrow> string \<Rightarrow> string \<Rightarrow> world \<Rightarrow> world" where
  "try_create_snapshot env project zone disk_nm snapshot_nm w =
     (case create_snapshot env project disk_nm snapshot_nm zone PNone None PNone w of
        (Inr sn, w1) \<Rightarrow> print_stdout (created_line snapshot_nm disk_nm) w1
      | (Inl e, w1) \<Rightarrow> print_stdout (failed_line disk_nm e) w1)"

fun for_disks ::
  "provider \<Rightarrow> pyval \<Rightarrow> pyval \<Rightarrow> string \<Rightarrow> string \<Rightarrow> disk list \<Rightarrow> world \<Rightarrow> world" where
  "for_disks env project zone current_month_name current_year [] w = w"
| "for_disks env project zone current_month_name current_year (d # disks) w =
     (let snapshot_nm =
            name d @ ''-'' @ current_month_name @ ''-'' @ current_year @ ''-patching''
      in for_disks env project zone current_month_name current_year disks
           (try_create_snapshot env project zone (name d) snapshot_nm w))"

definition create_snapshots_for_all_disks ::
  "provider \<Rightarrow> pyval \<Rightarrow> pyval \<Rightarrow> world \<Rightarrow> (pyexc + unit) \<times> world" where
  "create_snapshots_for_all_disks env project zone w =
     (case list_disks env project zone PNone w of
        (Inl e, w1) \<Rightarrow> (Inl e, w1)
      | (Inr disks, w1) \<Rightarrow>
          (case datetime_now env w1 of
             (t1, w2) \<Rightarrow>
               (let current_month_name = lower (strftime_B t1) in
                case datetime_now env w2 of
                  (t2, w3) \<Rightarrow>
                    (let current_year = strftime_Y t2 in
                     (Inr (),
                      for_disks env project zone current_month_name current_year
                        disks w3)))))"

section \<open>main\<close>

text \<open>
  The request: the bytes \<^verbatim>\<open>get_data()\<close> returns and the value
  \<^verbatim>\<open>get_json(silent=True)\<close> returns, which is \<^verbatim>\<open>None\<close> when the body is not JSON.
\<close>

record request =
  get_data :: string
  get_json :: pyval

record response =
  status :: nat
  body :: "(string \<times> string) list"

text \<open>\<^verbatim>\<open>request_json.get(key)\<close>: only a dict has the method.\<close>

fun py_get :: "pyval \<Rightarrow> string \<Rightarrow> pyexc + pyval" where
  "py_get (PDict kvs) k = Inr (case map_of kvs k of None \<Rightarrow> PNone | Some v \<Rightarrow> v)"
| "py_get v k =
     Inl (AttributeError
            (apos @ type_name v @ apos @ '' object has no attribute '' @ apos @ ''get'' @ apos))"

definition main :: "provider \<Rightarrow> request \<Rightarrow> world \<Rightarrow> (pyexc + response) \<times> world" where
  "main env request w =
     (if get_data request = [] then
        (Inr \<lparr>status = 400, body = [(''error'', ''Empty request body'')]\<rparr>, w)
      else
        (let request_json = get_json request in
         if \<not> truthy request_json then
           (Inr \<lparr>status = 400, body = [(''error'', ''Invalid JSON payload'')]\<rparr>, w)
         else
           (case py_get request_json ''project'' of
              Inl e \<Rightarrow> (Inl e, w)
            | Inr project \<Rightarrow>
                (case py_get request_json ''zone'' of
                   Inl e \<Rightarrow> (Inl e, w)
                 | Inr zone \<Rightarrow>
                     (let w1 = print_stderr
                            [Lit ''Received request payload: project='', Fmt project,
                             Lit '', zone='', Fmt zone] w
                      in
                      if \<not> truthy project \<or> \<not> truthy zone then
                        (Inr \<lparr>status = 400,
                              body = [(''error'',
                                ''Missing 'project' or 'zone' in request'')]\<rparr>, w1)
                      else
                        (case create_snapshots_for_all_disks env project zone w1 of
                           (Inr u, w2) \<Rightarrow>
                             (Inr \<lparr>status = 200,
                                   body = [(''message'',
                                     ''Snapshots created successfully'')]\<rparr>, w2)
                         | (Inl e, w2) \<Rightarrow>
                             (Inr \<lparr>status = 500,
                                   body = [(''error'',
                                     ''Snapshot creation failed: '' @ exc_str e)]\<rparr>,
                              print_stderr
                                [Lit ''Snapshot creation failed: '', Lit (exc_str e)]
                                w2)))))))"

section \<open>The naming rule in the specification's words\<close>

text \<open>
  The disk name, a hyphen, the month as a lowercase full English name, a hyphen, the
  year in four digits, and the suffix \<^verbatim>\<open>-patching\<close>.
\<close>

fun month_lowercase :: "month \<Rightarrow> string" where
  "month_lowercase January = ''january''"
| "month_lowercase February = ''february''"
| "month_lowercase March = ''march''"
| "month_lowercase April = ''april''"
| "month_lowercase May = ''may''"
| "month_lowercase June = ''june''"
| "month_lowercase July = ''july''"
| "month_lowercase August = ''august''"
| "month_lowercase September = ''september''"
| "month_lowercase October = ''october''"
| "month_lowercase November = ''november''"
| "month_lowercase December = ''december''"

definition four_digits :: "nat \<Rightarrow> string" where
  "four_digits y =
     [digit_char (y div 1000), digit_char (y div 100 mod 10),
      digit_char (y div 10 mod 10), digit_char (y mod 10)]"

definition patching_name :: "string \<Rightarrow> month \<Rightarrow> nat \<Rightarrow> string" where
  "patching_name disk_nm m y =
     disk_nm @ ''-'' @ month_lowercase m @ ''-'' @ four_digits y @ ''-patching''"

section \<open>Reading a run\<close>

text \<open>The disks fetched through the zonal client, in the order of the calls.\<close>

fun disk_gets :: "call list \<Rightarrow> string list" where
  "disk_gets [] = []"
| "disk_gets (DisksGet p z n # cs) = n # disk_gets cs"
| "disk_gets (c # cs) = disk_gets cs"

text \<open>
  A line of the standard output reports disk \<open>d\<close>: it is the line of a successful
  attempt on \<open>d\<close> (for the snapshot name it carries) or the line of a failed one (for
  the exception text it carries).
\<close>

fun lit_text :: "piece \<Rightarrow> string" where
  "lit_text (Lit s) = s"
| "lit_text (Fmt v) = []"

definition reports :: "disk \<Rightarrow> line \<Rightarrow> bool" where
  "reports d l =
     ((length l = 5 \<and> l = created_line (lit_text (l ! 1)) (name d)) \<or>
      (length l = 4 \<and> l = failed_line (name d) (PyExc [] (lit_text (l ! 3)))))"

text \<open>
  The results of the calls of \<^verbatim>\<open>create_snapshot\<close> that the loop makes, in order: each is
  the result of the call in the world the loop makes it in, and the loop's own iteration
  leads to the next world.
\<close>

fun attempt_results ::
  "provider \<Rightarrow> pyval \<Rightarrow> pyval \<Rightarrow> string \<Rightarrow> string \<Rightarrow> disk list \<Rightarrow> world \<Rightarrow>
   (pyexc + snapshot) list" where
  "attempt_results env project zone mn yr [] w = []"
| "attempt_results env project zone mn yr (d # disks) w =
     fst (create_snapshot env project (name d)
            (name d @ ''-'' @ mn @ ''-'' @ yr @ ''-patching'') zone PNone None PNone w) #
     attempt_results env project zone mn yr disks (for_disks env project zone mn yr [d] w)"

section \<open>Sample collaborators\<close>

definition world0 :: world where
  "world0 = \<lparr>calls = [], stderr = [], stdout = []\<rparr>"

definition op_done :: operation where
  "op_done =
     \<lparr>result = (\<lambda>t. Inr PNone), error_code = 0, error_message = [],
      op_name = ''operation-1'', exception = None, warnings = []\<rparr>"



definition op_warned :: operation where
  "op_warned =
     \<lparr>result = (\<lambda>t. Inr (PStr ''done'')), error_code = 0, error_message = [],
      op_name = ''operation-3'', exception = None,
      warnings = [\<lparr>code = ''DEPRECATED'', message = ''old image''\<rparr>,
                  \<lparr>code = ''QUOTA'', message = ''near limit''\<rparr>]\<rparr>"

text \<open>
  A zone with two disks where the fetch of \<^verbatim>\<open>broken-disk\<close> raises, in March 2024.
\<close>

definition sample_provider :: provider where
  "sample_provider =
     \<lparr>disks_list = (\<lambda>h p z.
        Inr [\<lparr>name = ''broken-disk'', self_link = ''disks/broken-disk''\<rparr>,
             \<lparr>name = ''boot-disk'', self_link = ''disks/boot-disk''\<rparr>]),
      region_disks_list = (\<lambda>h p r. Inr []),
      disks_get = (\<lambda>h p z n.
        if n = ''broken-disk'' then Inl (PyExc ''NotFound'' ''no such disk'')
        else Inr \<lparr>name = n, self_link = ''disks/'' @ n\<rparr>),
      region_disks_get = (\<lambda>h p r n. Inl (PyExc ''NotFound'' ''no such disk'')),
      snapshots_insert = (\<lambda>h p sn. Inr op_done),
      snapshots_get = (\<lambda>h p n.
        Inr \<lparr>source_disk = ''disks/boot-disk'', snap_name = n, storage_locations = []\<rparr>),
      now = (\<lambda>h. \<lparr>year = 2024, month = March\<rparr>)\<rparr>"

text \<open>A provider whose disk listing raises.\<close>

definition failing_provider :: provider where
  "failing_provider =
     sample_provider\<lparr>disks_list := (\<lambda>h p z. Inl (PyExc ''Forbidden'' ''permission denied''))\<rparr>"

text \<open>A provider that lists one disk and refuses every snapshot.\<close>

definition refusing_provider :: provider where
  "refusing_provider =
     sample_provider\<lparr>disks_list := (\<lambda>h p z.
        Inr [\<lparr>name = ''boot-disk'', self_link = ''disks/boot-disk''\<rparr>]),
       snapshots_insert := (\<lambda>h p sn. Inl (PyExc ''Conflict'' ''already exists''))\<rparr>"

definition sample_request :: request where
  "sample_request =
     \<lparr>get_data = ''{\"project\": \"p\", \"zone\": \"z\"}'',
      get_json = PDict [(''project'', PStr ''p''), (''zone'', PStr ''z'')]\<rparr>"

section \<open>The operation waiter\<close>

lemma print_warnings_stderr:
  "print_warnings wns w = w\<lparr>stderr := stderr w @ map warning_line wns\<rparr>"
  by (induction wns arbitrary: w) (simp_all add: print_stderr_def)

lemma waiter_error_code_never_returns:
  assumes "error_code operation \<noteq> 0"
  shows "\<exists>e. fst (wait_for_extended_operation operation verbose_name timeout w) = Inl e"
  using assms
  by (cases "result operation timeout")
    (simp_all add: wait_for_extended_operation_def perform_def Let_def)




text \<open>
  C8. When \<^verbatim>\<open>result()\<close> has returned, no error code is set and the operation carries
  warnings, the waiter writes a heading and then one line per warning, with its code and
  its message, to the error stream, and returns the operation's result.
\<close>

theorem waiter_warnings_logged:
  assumes "result operation timeout = Inr res" and "error_code operation = 0"
    and "warnings operation \<noteq> []"
  shows "wait_for_extended_operation operation verbose_name timeout w =
    (Inr res,
     w\<lparr>calls := calls w @ [OperationResult (op_name operation) timeout],
       stderr := stderr w @
         [Lit ''Warnings during '', Lit verbose_name, Lit ('':'' @ newline)] #
         map (\<lambda>wn. [Lit '' - '', Lit (code wn), Lit '': '', Lit (message wn)])
           (warnings operation)\<rparr>)"
  using assms
  by (simp add: wait_for_extended_operation_def perform_def print_stderr_def
      print_warnings_stderr warning_line_def)

theorem waiter_warnings_logged_witness:
  "result op_warned 300 = Inr (PStr ''done'') \<and> error_code op_warned = 0 \<and>
   warnings op_warned \<noteq> [] \<and>
   wait_for_extended_operation op_warned ''operation'' 300 world0 =
    (Inr (PStr ''done''),
     \<lparr>calls = [OperationResult ''operation-3'' 300],
      stderr =
        [[Lit ''Warnings during '', Lit ''operation'', Lit ('':'' @ newline)],
         [Lit '' - '', Lit ''DEPRECATED'', Lit '': '', Lit ''old image''],
         [Lit '' - '', Lit ''QUOTA'', Lit '': '', Lit ''near limit'']],
      stdout = []\<rparr>)"
proof -
  have r: "result op_warned 300 = Inr (PStr ''done'')" by (simp add: op_warned_def)
  have c: "error_code op_warned = 0" by (simp add: op_warned_def)
  have n: "warnings op_warned \<noteq> []" by (simp add: op_warned_def)
  show ?thesis
    using waiter_warnings_logged [OF r c n, of "''operation''" world0]
    by (simp add: op_warned_def world0_def)
qed

section \<open>Scope validation in the disk lister and the snapshot creator\<close>

text \<open>
  C7. Called with zone and region both set (both not \<^verbatim>\<open>None\<close>) or both unset, the
  snapshot creator raises a \<^verbatim>\<open>RuntimeError\<close> and leaves the world as it was: no disk
  fetch, no snapshot insert, no wait, nothing printed.
\<close>

theorem create_snapshot_scope_error:
  assumes "(zone \<noteq> PNone \<and> region \<noteq> PNone) \<or> (zone = PNone \<and> region = PNone)"
  shows "\<exists>msg. create_snapshot env project disk_nm snapshot_nm zone region location
           disk_project w = (Inl (RuntimeError msg), w)"
  using assms by (auto simp add: create_snapshot_def)

theorem create_snapshot_scope_error_witness:
  "(\<exists>msg. create_snapshot sample_provider (PStr ''p'') ''boot-disk''
            ''boot-disk-march-2024-patching'' (PStr ''z'') (PStr ''r'') None PNone world0 =
          (Inl (RuntimeError msg), world0)) \<and>
   (\<exists>msg. create_snapshot sample_provider (PStr ''p'') ''boot-disk''
            ''boot-disk-march-2024-patching'' PNone PNone None PNone world0 =
          (Inl (RuntimeError msg), world0))"
proof -
  have both: "(PStr ''z'' \<noteq> PNone \<and> PStr ''r'' \<noteq> PNone) \<or> (PStr ''z'' = PNone \<and> PStr ''r'' = PNone)"
    by simp
  have neither: "(PNone \<noteq> PNone \<and> PNone \<noteq> PNone) \<or> (PNone = PNone \<and> PNone = PNone)"
    by simp
  show ?thesis
    using create_snapshot_scope_error [OF both] create_snapshot_scope_error [OF neither]
    by blast
qed

text \<open>
  C9. Called with neither zone nor region (each \<^verbatim>\<open>None\<close>, or any other falsy value),
  the disk lister raises the \<^verbatim>\<open>ValueError\<close> and has made no call.
\<close>

theorem list_disks_no_scope:
  assumes "\<not> truthy zone" and "\<not> truthy region"
  shows "list_disks env project zone region w =
    (Inl (ValueError ''Either `zone` or `region` must be provided.''), w)"
  using assms by (simp add: list_disks_def)

theorem list_disks_no_scope_witness:
  "\<not> truthy PNone \<and>
   list_disks sample_provider (PStr ''p'') PNone PNone world0 =
    (Inl (PyExc ''ValueError'' ''Either `zone` or `region` must be provided.''), world0)"
proof -
  have n: "\<not> truthy PNone" by simp
  show ?thesis using list_disks_no_scope [OF n n, of sample_provider "PStr ''p''" world0]
    by (simp add: ValueError_def)
qed

text \<open>
  C10. Called with zone and region both non-empty, the disk lister raises no error of
  its own: it makes the one zonal listing call and its outcome is that call's outcome,
  exactly as if no region had been passed.
\<close>

theorem list_disks_zone_precedence:
  assumes "truthy zone" and "truthy region"
  shows "list_disks env project zone region w =
      (disks_list env (calls w) project zone, w\<lparr>calls := calls w @ [DisksList project zone]\<rparr>)
    \<and> list_disks env project zone region w = list_disks env project zone PNone w"
  using assms by (simp add: list_disks_def perform_def)

theorem list_disks_zone_precedence_witness:
  "truthy (PStr ''z'') \<and> truthy (PStr ''r'') \<and>
   list_disks sample_provider (PStr ''p'') (PStr ''z'') (PStr ''r'') world0 =
     (Inr [\<lparr>name = ''broken-disk'', self_link = ''disks/broken-disk''\<rparr>,
           \<lparr>name = ''boot-disk'', self_link = ''disks/boot-disk''\<rparr>],
      \<lparr>calls = [DisksList (PStr ''p'') (PStr ''z'')], stderr = [], stdout = []\<rparr>)"
proof -
  have z: "truthy (PStr ''z'')" and r: "truthy (PStr ''r'')" by simp_all
  show ?thesis
    using list_disks_zone_precedence [OF z r, of sample_provider "PStr ''p''" world0]
    by (simp add: sample_provider_def world0_def)
qed

section \<open>The batch orchestrator\<close>

lemma disk_gets_append: "disk_gets (xs @ ys) = disk_gets xs @ disk_gets ys"
  by (induction xs rule: disk_gets.induct) simp_all

lemma print_warnings_calls:
  "calls (print_warnings wns w) = calls w \<and> stdout (print_warnings wns w) = stdout w"
  by (induction wns arbitrary: w) (simp_all add: print_stderr_def)

lemma wait_effect:
  assumes "wait_for_extended_operation operation verbose_name timeout w = (r, w')"
  shows "calls w' = calls w @ [OperationResult (op_name operation) timeout] \<and>
    stdout w' = stdout w"
  using assms
  by (cases "result operation timeout")
    (auto simp add: wait_for_extended_operation_def perform_def print_stderr_def
      print_warnings_calls Let_def split: if_splits)

lemma list_disks_zone_only:
  assumes "list_disks env project zone PNone w = (Inr disks, w1)"
  shows "truthy zone \<and> disks_list env (calls w) project zone = Inr disks \<and>
    w1 = w\<lparr>calls := calls w @ [DisksList project zone]\<rparr>"
  using assms by (auto simp add: list_disks_def perform_def split: if_splits)

lemma truthy_not_None: "truthy v \<Longrightarrow> v \<noteq> PNone"
  by (cases v) simp_all

lemma create_snapshot_zonal_effect:
  assumes "zone \<noteq> PNone"
    and "create_snapshot env project disk_nm snapshot_nm zone PNone None PNone w = (r, w')"
  shows "(\<exists>cs. calls w' = calls w @ DisksGet project zone disk_nm # cs \<and> disk_gets cs = [])
    \<and> stdout w' = stdout w"
  using assms
  by (auto simp add: create_snapshot_def perform_def Let_def
      split: sum.splits prod.splits if_splits dest!: wait_effect)

lemma reports_created: "reports d (created_line snapshot_nm (name d))"
  by (simp add: reports_def created_line_def)

lemma reports_failed: "reports d (failed_line (name d) e)"
  by (simp add: reports_def failed_line_def)

lemma try_create_snapshot_effect:
  assumes "zone \<noteq> PNone"
  shows "\<exists>cs l. calls (try_create_snapshot env project zone (name d) snapshot_nm w) =
        calls w @ cs \<and> disk_gets cs = [name d] \<and>
      stdout (try_create_snapshot env project zone (name d) snapshot_nm w) = stdout w @ [l] \<and>
      reports d l"
proof -
  obtain r w' where run:
    "create_snapshot env project (name d) snapshot_nm zone PNone None PNone w = (r, w')"
    by (cases "create_snapshot env project (name d) snapshot_nm zone PNone None PNone w")
  from create_snapshot_zonal_effect [OF assms run]
  obtain cs where cs: "calls w' = calls w @ DisksGet project zone (name d) # cs"
    "disk_gets cs = []" and out: "stdout w' = stdout w"
    by blast
  show ?thesis
  proof (cases r)
    case (Inl e)
    with run cs out show ?thesis
      by (auto simp add: try_create_snapshot_def print_stdout_def reports_created reports_failed)
  next
    case (Inr sn)
    with run cs out show ?thesis
      by (auto simp add: try_create_snapshot_def print_stdout_def reports_created reports_failed)
  qed
qed

lemma for_disks_effect:
  assumes "zone \<noteq> PNone"
  shows "\<exists>cs ls. calls (for_disks env project zone m y disks w) = calls w @ cs \<and>
      disk_gets cs = map name disks \<and>
      stdout (for_disks env project zone m y disks w) = stdout w @ ls \<and>
      list_all2 reports disks ls"
proof (induction disks arbitrary: w)
  case Nil
  show ?case by simp
next
  case (Cons d disks)
  define w1 where "w1 = try_create_snapshot env project zone (name d)
    (name d @ ''-'' @ m @ ''-'' @ y @ ''-patching'') w"
  from try_create_snapshot_effect [OF assms]
  obtain cs l where 1: "calls w1 = calls w @ cs" "disk_gets cs = [name d]"
    "stdout w1 = stdout w @ [l]" "reports d l"
    unfolding w1_def by blast
  from Cons.IH [of w1]
  obtain cs' ls where 2: "calls (for_disks env project zone m y disks w1) = calls w1 @ cs'"
    "disk_gets cs' = map name disks"
    "stdout (for_disks env project zone m y disks w1) = stdout w1 @ ls"
    "list_all2 reports disks ls"
    by blast
  have "calls (for_disks env project zone m y (d # disks) w) = calls w @ (cs @ cs')"
    using 1 2 by (simp add: w1_def)
  moreover have "disk_gets (cs @ cs') = map name (d # disks)"
    using 1 2 by (simp add: disk_gets_append)
  moreover have "stdout (for_disks env project zone m y (d # disks) w) = stdout w @ (l # ls)"
    using 1 2 by (simp add: w1_def)
  moreover have "list_all2 reports (d # disks) (l # ls)"
    using 1 2 by simp
  ultimately show ?case by blast
qed

lemma orchestrator_run:
  assumes "list_disks env project zone PNone w = (Inr disks, w1)"
  shows "\<exists>w' cs ls. create_snapshots_for_all_disks env project zone w = (Inr (), w') \<and>
    calls w' = calls w @ [DisksList project zone, DatetimeNow, DatetimeNow] @ cs \<and>
    disk_gets cs = map name disks \<and>
    stdout w' = stdout w @ ls \<and> list_all2 reports disks ls"
proof -
  from list_disks_zone_only [OF assms]
  have z: "zone \<noteq> PNone" and w1: "w1 = w\<lparr>calls := calls w @ [DisksList project zone]\<rparr>"
    by (auto dest: truthy_not_None)
  define t1 where "t1 = now env (calls w1)"
  define w2 where "w2 = w1\<lparr>calls := calls w1 @ [DatetimeNow]\<rparr>"
  define t2 where "t2 = now env (calls w2)"
  define w3 where "w3 = w2\<lparr>calls := calls w2 @ [DatetimeNow]\<rparr>"
  define w' where "w' = for_disks env project zone (lower (strftime_B t1)) (strftime_Y t2) disks w3"
  have run: "create_snapshots_for_all_disks env project zone w = (Inr (), w')"
    using assms
    by (simp add: create_snapshots_for_all_disks_def datetime_now_def perform_def
        w'_def w3_def t2_def w2_def t1_def)
  from for_disks_effect [OF z, of env project "lower (strftime_B t1)" "strftime_Y t2" disks w3]
  obtain cs ls where e: "calls w' = calls w3 @ cs" "disk_gets cs = map name disks"
    "stdout w' = stdout w3 @ ls" "list_all2 reports disks ls"
    unfolding w'_def by blast
  have c3: "calls w3 = calls w @ [DisksList project zone, DatetimeNow, DatetimeNow]"
    and o3: "stdout w3 = stdout w"
    by (simp_all add: w3_def w2_def w1)
  have "calls w' = calls w @ [DisksList project zone, DatetimeNow, DatetimeNow] @ cs"
    using e c3 by simp
  moreover have "stdout w' = stdout w @ ls"
    using e o3 by simp
  ultimately show ?thesis using run e by blast
qed

lemma orchestrator_begins_with_listing:
  assumes "truthy zone"
  shows "\<exists>cs. calls (snd (create_snapshots_for_all_disks env project zone w)) =
    calls w @ DisksList project zone # cs"
proof (cases "disks_list env (calls w) project zone")
  case (Inl e)
  with assms show ?thesis
    by (simp add: create_snapshots_for_all_disks_def list_disks_def perform_def)
next
  case (Inr disks)
  have "list_disks env project zone PNone w =
      (Inr disks, w\<lparr>calls := calls w @ [DisksList project zone]\<rparr>)"
    using assms Inr by (simp add: list_disks_def perform_def)
  from orchestrator_run [OF this] show ?thesis by auto
qed

lemma create_snapshot_stdout:
  assumes "create_snapshot env project disk_nm snapshot_nm zone region location disk_project w =
    (r, w')"
  shows "stdout w' = stdout w"
  using assms
  by (auto simp add: create_snapshot_def perform_def Let_def
      split: sum.splits prod.splits if_splits dest!: wait_effect)

lemma try_create_snapshot_stdout:
  "stdout (try_create_snapshot env project zone disk_nm snapshot_nm w) =
   stdout w @
     [case fst (create_snapshot env project disk_nm snapshot_nm zone PNone None PNone w) of
        Inl e \<Rightarrow> failed_line disk_nm e
      | Inr sn \<Rightarrow> created_line snapshot_nm disk_nm]"
proof -
  obtain r w' where run:
    "create_snapshot env project disk_nm snapshot_nm zone PNone None PNone w = (r, w')"
    by (cases "create_snapshot env project disk_nm snapshot_nm zone PNone None PNone w")
  from create_snapshot_stdout [OF run] have "stdout w' = stdout w" .
  with run show ?thesis
    by (cases r) (simp_all add: try_create_snapshot_def print_stdout_def)
qed

lemma length_attempt_results:
  "length (attempt_results env project zone mn yr disks w) = length disks"
  by (induction disks arbitrary: w) simp_all

lemma for_disks_stdout:
  "stdout (for_disks env project zone mn yr disks w) =
   stdout w @
     map (\<lambda>(d, r). case r of
            Inl e \<Rightarrow> failed_line (name d) e
          | Inr sn \<Rightarrow>
              created_line (name d @ ''-'' @ mn @ ''-'' @ yr @ ''-patching'') (name d))
       (zip disks (attempt_results env project zone mn yr disks w))"
  by (induction disks arbitrary: w) (simp_all add: try_create_snapshot_stdout)

text \<open>
  C4. Whenever the listing call returns a list of disks, the orchestrator returns
  normally, whatever the per-disk attempts do.  From the start of the run on, the zonal
  disk fetches (the first thing every attempt does) are those of the listed disks, one
  each and in order, and the standard output gains one line per listed disk, in order:
  the failure line with the exception's text where that disk's call of
  \<^verbatim>\<open>create_snapshot\<close> raised, the success line with the snapshot name where it returned.
\<close>

theorem orchestrator_attempts_every_disk:
  assumes "list_disks env project zone PNone w = (Inr disks, w1)"
    and "mn = lower (strftime_B (now env (calls w1)))"
    and "yr = strftime_Y (now env (calls w1 @ [DatetimeNow]))"
    and "results = attempt_results env project zone mn yr disks
           (w1\<lparr>calls := calls w1 @ [DatetimeNow, DatetimeNow]\<rparr>)"
  shows "\<exists>w'. create_snapshots_for_all_disks env project zone w = (Inr (), w') \<and>
    disk_gets (drop (length (calls w)) (calls w')) = map name disks \<and>
    list_all2 reports disks (drop (length (stdout w)) (stdout w')) \<and>
    length results = length disks \<and>
    drop (length (stdout w)) (stdout w') =
      map (\<lambda>(d, r). case r of
             Inl e \<Rightarrow> failed_line (name d) e
           | Inr sn \<Rightarrow>
               created_line (name d @ ''-'' @ mn @ ''-'' @ yr @ ''-patching'') (name d))
        (zip disks results)"
proof -
  define w3 where "w3 = w1\<lparr>calls := calls w1 @ [DatetimeNow, DatetimeNow]\<rparr>"
  from orchestrator_run [OF assms(1)]
  obtain w' cs ls where r: "create_snapshots_for_all_disks env project zone w = (Inr (), w')"
    "calls w' = calls w @ [DisksList project zone, DatetimeNow, DatetimeNow] @ cs"
    "disk_gets cs = map name disks" "stdout w' = stdout w @ ls" "list_all2 reports disks ls"
    by blast
  have run: "create_snapshots_for_all_disks env project zone w =
      (Inr (), for_disks env project zone mn yr disks w3)"
    using assms(1-3)
    by (simp add: create_snapshots_for_all_disks_def datetime_now_def perform_def w3_def)
  with r(1) have w': "w' = for_disks env project zone mn yr disks w3" by simp
  have o3: "stdout w3 = stdout w"
    using list_disks_zone_only [OF assms(1)] by (simp add: w3_def)
  have 1: "disk_gets (drop (length (calls w)) (calls w')) = map name disks"
    using r by simp
  have 2: "list_all2 reports disks (drop (length (stdout w)) (stdout w'))"
    using r by simp
  have 3: "length results = length disks"
    by (simp add: assms(4) length_attempt_results)
  have 4: "drop (length (stdout w)) (stdout w') =
      map (\<lambda>(d, r). case r of
             Inl e \<Rightarrow> failed_line (name d) e
           | Inr sn \<Rightarrow>
               created_line (name d @ ''-'' @ mn @ ''-'' @ yr @ ''-patching'') (name d))
        (zip disks results)"
    unfolding w' assms(4) w3_def [symmetric] by (simp add: for_disks_stdout o3)
  from r(1) 1 2 3 4 show ?thesis by blast
qed

theorem orchestrator_attempts_every_disk_witness:
  "list_disks sample_provider (PStr ''p'') (PStr ''z'') PNone world0 =
     (Inr [\<lparr>name = ''broken-disk'', self_link = ''disks/broken-disk''\<rparr>,
           \<lparr>name = ''boot-disk'', self_link = ''disks/boot-disk''\<rparr>],
      \<lparr>calls = [DisksList (PStr ''p'') (PStr ''z'')], stderr = [], stdout = []\<rparr>) \<and>
   attempt_results sample_provider (PStr ''p'') (PStr ''z'') ''march'' ''2024''
     [\<lparr>name = ''broken-disk'', self_link = ''disks/broken-disk''\<rparr>,
      \<lparr>name = ''boot-disk'', self_link = ''disks/boot-disk''\<rparr>]
     \<lparr>calls = [DisksList (PStr ''p'') (PStr ''z''), DatetimeNow, DatetimeNow],
      stderr = [], stdout = []\<rparr> =
     [Inl (PyExc ''NotFound'' ''no such disk''),
      Inr \<lparr>source_disk = ''disks/boot-disk'', snap_name = ''boot-disk-march-2024-patching'',
           storage_locations = []\<rparr>] \<and>
   (\<exists>w'. create_snapshots_for_all_disks sample_provider (PStr ''p'') (PStr ''z'') world0 =
       (Inr (), w') \<and>
     disk_gets (drop (length (calls world0)) (calls w')) = [''broken-disk'', ''boot-disk''] \<and>
     list_all2 reports
       [\<lparr>name = ''broken-disk'', self_link = ''disks/broken-disk''\<rparr>,
        \<lparr>name = ''boot-disk'', self_link = ''disks/boot-disk''\<rparr>]
       (drop (length (stdout world0)) (stdout w')) \<and>
     drop (length (stdout world0)) (stdout w') =
       [failed_line ''broken-disk'' (PyExc ''NotFound'' ''no such disk''),
        created_line ''boot-disk-march-2024-patching'' ''boot-disk''])"
proof -
  have h: "list_disks sample_provider (PStr ''p'') (PStr ''z'') PNone world0 =
     (Inr [\<lparr>name = ''broken-disk'', self_link = ''disks/broken-disk''\<rparr>,
           \<lparr>name = ''boot-disk'', self_link = ''disks/boot-disk''\<rparr>],
      \<lparr>calls = [DisksList (PStr ''p'') (PStr ''z'')], stderr = [], stdout = []\<rparr>)"
    by (simp add: list_disks_def perform_def sample_provider_def world0_def)
  have mn: "''march'' = lower (strftime_B (now sample_provider
      (calls \<lparr>calls = [DisksList (PStr ''p'') (PStr ''z'')], stderr = [], stdout = []\<rparr>)))"
    by (simp add: sample_provider_def strftime_B_def lower_def lower_char_def)
  have yr: "''2024'' = strftime_Y (now sample_provider
      (calls \<lparr>calls = [DisksList (PStr ''p'') (PStr ''z'')], stderr = [], stdout = []\<rparr>
        @ [DatetimeNow]))"
    by (simp add: sample_provider_def strftime_Y_def decimal.simps digit_char_def)
  have res: "[Inl (PyExc ''NotFound'' ''no such disk''),
      Inr \<lparr>source_disk = ''disks/boot-disk'', snap_name = ''boot-disk-march-2024-patching'',
           storage_locations = []\<rparr>] =
    attempt_results sample_provider (PStr ''p'') (PStr ''z'') ''march'' ''2024''
     [\<lparr>name = ''broken-disk'', self_link = ''disks/broken-disk''\<rparr>,
      \<lparr>name = ''boot-disk'', self_link = ''disks/boot-disk''\<rparr>]
     (\<lparr>calls = [DisksList (PStr ''p'') (PStr ''z'')], stderr = [], stdout = []\<rparr>
        \<lparr>calls := calls \<lparr>calls = [DisksList (PStr ''p'') (PStr ''z'')], stderr = [],
           stdout = []\<rparr> @ [DatetimeNow, DatetimeNow]\<rparr>)"
    by (simp add: try_create_snapshot_def create_snapshot_def perform_def
        wait_for_extended_operation_def sample_provider_def op_done_def print_stdout_def
        Let_def)
  show ?thesis
    using h res [symmetric] orchestrator_attempts_every_disk [OF h mn yr res]
    by simp
qed

lemma lower_month_name: "lower (month_name m) = month_lowercase m"
  by (cases m) (simp_all add: lower_def lower_char_def)

lemma decimal_four_digits:
  assumes "1000 \<le> y" and "y \<le> 9999"
  shows "decimal y = four_digits y"
proof -
  have b: "\<not> y < 10" "\<not> y div 10 < 10" "\<not> y div 100 < 10" "y div 1000 < 10"
    using assms by arith+
  have 1: "decimal y = decimal (y div 10) @ [digit_char (y mod 10)]"
    using b by (simp add: decimal.simps [of y])
  have 2: "decimal (y div 10) = decimal (y div 100) @ [digit_char (y div 10 mod 10)]"
    using b by (simp add: decimal.simps [of "y div 10"] div_mult2_eq [symmetric])
  have 3: "decimal (y div 100) = decimal (y div 1000) @ [digit_char (y div 100 mod 10)]"
    using b by (simp add: decimal.simps [of "y div 100"] div_mult2_eq [symmetric])
  have 4: "decimal (y div 1000) = [digit_char (y div 1000)]"
    using b by (simp add: decimal.simps [of "y div 1000"])
  show ?thesis unfolding 1 2 3 4 by (simp add: four_digits_def)
qed

lemma for_disks_foldl:
  "for_disks env project zone mn yr disks w =
     foldl (\<lambda>w d. try_create_snapshot env project zone (name d)
              (name d @ ''-'' @ mn @ ''-'' @ yr @ ''-patching'') w) w disks"
  by (induction disks arbitrary: w) simp_all

text \<open>
  C5. The orchestrator reads the clock twice after the listing, the month from the first
  reading and the year from the second.  For a year of four digits, its run is the
  sequence of attempts, one per listed disk, each made with the snapshot name the
  specification describes: the disk name, a hyphen, the lowercase English month name, a
  hyphen, the four digits of the year, and \<^verbatim>\<open>-patching\<close>.  In March 2024 the name for
  \<^verbatim>\<open>boot-disk\<close> is \<^verbatim>\<open>boot-disk-march-2024-patching\<close>.
\<close>

theorem snapshot_name_rule:
  assumes "list_disks env project zone PNone w = (Inr disks, w1)"
    and "m = month (now env (calls w1))"
    and "y = year (now env (calls w1 @ [DatetimeNow]))"
    and "1000 \<le> y" and "y \<le> 9999"
  shows "create_snapshots_for_all_disks env project zone w =
    (Inr (),
     foldl (\<lambda>w d. try_create_snapshot env project zone (name d)
                     (patching_name (name d) m y) w)
       (w1\<lparr>calls := calls w1 @ [DatetimeNow, DatetimeNow]\<rparr>) disks)"
  using assms
  by (simp add: create_snapshots_for_all_disks_def datetime_now_def perform_def
      for_disks_foldl strftime_B_def strftime_Y_def lower_month_name decimal_four_digits
      patching_name_def)

theorem snapshot_name_rule_witness:
  "list_disks sample_provider (PStr ''p'') (PStr ''z'') PNone world0 =
     (Inr [\<lparr>name = ''broken-disk'', self_link = ''disks/broken-disk''\<rparr>,
           \<lparr>name = ''boot-disk'', self_link = ''disks/boot-disk''\<rparr>],
      \<lparr>calls = [DisksList (PStr ''p'') (PStr ''z'')], stderr = [], stdout = []\<rparr>) \<and>
   patching_name ''boot-disk'' March 2024 = ''boot-disk-march-2024-patching'' \<and>
   create_snapshots_for_all_disks sample_provider (PStr ''p'') (PStr ''z'') world0 =
     (Inr (),
      \<lparr>calls =
         [DisksList (PStr ''p'') (PStr ''z''), DatetimeNow, DatetimeNow,
          DisksGet (PStr ''p'') (PStr ''z'') ''broken-disk'',
          DisksGet (PStr ''p'') (PStr ''z'') ''boot-disk'',
          SnapshotsInsert (PStr ''p'')
            \<lparr>source_disk = ''disks/boot-disk'',
             snap_name = ''boot-disk-march-2024-patching'', storage_locations = []\<rparr>,
          OperationResult ''operation-1'' 300,
          SnapshotsGet (PStr ''p'') ''boot-disk-march-2024-patching''],
       stderr = [],
       stdout =
         [failed_line ''broken-disk'' (PyExc ''NotFound'' ''no such disk''),
          created_line ''boot-disk-march-2024-patching'' ''boot-disk'']\<rparr>)"
proof -
  have h: "list_disks sample_provider (PStr ''p'') (PStr ''z'') PNone world0 =
     (Inr [\<lparr>name = ''broken-disk'', self_link = ''disks/broken-disk''\<rparr>,
           \<lparr>name = ''boot-disk'', self_link = ''disks/boot-disk''\<rparr>],
      \<lparr>calls = [DisksList (PStr ''p'') (PStr ''z'')], stderr = [], stdout = []\<rparr>)"
    by (simp add: list_disks_def perform_def sample_provider_def world0_def)
  have m: "March = month (now sample_provider
      (calls \<lparr>calls = [DisksList (PStr ''p'') (PStr ''z'')], stderr = [], stdout = []\<rparr>))"
    by (simp add: sample_provider_def)
  have y: "2024 = year (now sample_provider
      (calls \<lparr>calls = [DisksList (PStr ''p'') (PStr ''z'')], stderr = [], stdout = []\<rparr>
        @ [DatetimeNow]))"
    by (simp add: sample_provider_def)
  have n: "patching_name ''boot-disk'' March 2024 = ''boot-disk-march-2024-patching''"
    by (simp add: patching_name_def four_digits_def digit_char_def)
  have n': "patching_name ''broken-disk'' March 2024 = ''broken-disk-march-2024-patching''"
    by (simp add: patching_name_def four_digits_def digit_char_def)
  have run: "create_snapshots_for_all_disks sample_provider (PStr ''p'') (PStr ''z'') world0 =
    (Inr (),
     foldl (\<lambda>w d. try_create_snapshot sample_provider (PStr ''p'') (PStr ''z'') (name d)
                     (patching_name (name d) March 2024) w)
       (\<lparr>calls = [DisksList (PStr ''p'') (PStr ''z'')], stderr = [], stdout = []\<rparr>
          \<lparr>calls := calls \<lparr>calls = [DisksList (PStr ''p'') (PStr ''z'')], stderr = [],
             stdout = []\<rparr> @ [DatetimeNow, DatetimeNow]\<rparr>)
       [\<lparr>name = ''broken-disk'', self_link = ''disks/broken-disk''\<rparr>,
        \<lparr>name = ''boot-disk'', self_link = ''disks/boot-disk''\<rparr>])"
    by (rule snapshot_name_rule [OF h m y]) simp_all
  have ev: "foldl (\<lambda>w d. try_create_snapshot sample_provider (PStr ''p'') (PStr ''z'') (name d)
                     (patching_name (name d) March 2024) w)
       (\<lparr>calls = [DisksList (PStr ''p'') (PStr ''z'')], stderr = [], stdout = []\<rparr>
          \<lparr>calls := calls \<lparr>calls = [DisksList (PStr ''p'') (PStr ''z'')], stderr = [],
             stdout = []\<rparr> @ [DatetimeNow, DatetimeNow]\<rparr>)
       [\<lparr>name = ''broken-disk'', self_link = ''disks/broken-disk''\<rparr>,
        \<lparr>name = ''boot-disk'', self_link = ''disks/boot-disk''\<rparr>] =
      \<lparr>calls =
         [DisksList (PStr ''p'') (PStr ''z''), DatetimeNow, DatetimeNow,
          DisksGet (PStr ''p'') (PStr ''z'') ''broken-disk'',
          DisksGet (PStr ''p'') (PStr ''z'') ''boot-disk'',
          SnapshotsInsert (PStr ''p'')
            \<lparr>source_disk = ''disks/boot-disk'',
             snap_name = ''boot-disk-march-2024-patching'', storage_locations = []\<rparr>,
          OperationResult ''operation-1'' 300,
          SnapshotsGet (PStr ''p'') ''boot-disk-march-2024-patching''],
       stderr = [],
       stdout =
         [failed_line ''broken-disk'' (PyExc ''NotFound'' ''no such disk''),
          created_line ''boot-disk-march-2024-patching'' ''boot-disk'']\<rparr>"
    by (simp add: n n' try_create_snapshot_def create_snapshot_def perform_def
        wait_for_extended_operation_def sample_provider_def op_done_def print_stdout_def
        Let_def)
  show ?thesis using h n run ev by simp
qed

section \<open>The request handler\<close>

lemma orchestrator_returns_iff_listing:
  "(\<exists>w'. create_snapshots_for_all_disks env project zone w = (Inr (), w')) =
   (\<exists>disks w'. list_disks env project zone PNone w = (Inr disks, w'))"
  by (cases "list_disks env project zone PNone w"; cases "fst (list_disks env project zone PNone w)")
    (auto simp add: create_snapshots_for_all_disks_def datetime_now_def perform_def)

lemma main_validated:
  assumes "get_data request \<noteq> []" and "get_json request = PDict kvs"
    and "map_of kvs ''project'' = Some project" and "map_of kvs ''zone'' = Some zone"
    and "truthy project" and "truthy zone"
  shows "main env request w =
    (case create_snapshots_for_all_disks env project zone
            (print_stderr [Lit ''Received request payload: project='', Fmt project,
                           Lit '', zone='', Fmt zone] w) of
       (Inr u, w2) \<Rightarrow>
         (Inr \<lparr>status = 200, body = [(''message'', ''Snapshots created successfully'')]\<rparr>, w2)
     | (Inl e, w2) \<Rightarrow>
         (Inr \<lparr>status = 500,
               body = [(''error'', ''Snapshot creation failed: '' @ exc_str e)]\<rparr>,
          print_stderr [Lit ''Snapshot creation failed: '', Lit (exc_str e)] w2))"
proof -
  have "kvs \<noteq> []" using assms(3) by auto
  with assms show ?thesis by (simp add: main_def)
qed

text \<open>
  C3. For a request that passes validation (a non-empty body, a JSON object with truthy
  \<^verbatim>\<open>project\<close> and \<^verbatim>\<open>zone\<close>), the handler answers 200 with the success message exactly
  when the orchestrator returns normally, which is exactly when the disk listing returns,
  and answers 500 with \<^verbatim>\<open>Snapshot creation failed: \<close> followed by the exception's text
  exactly when the orchestrator raises.
\<close>

theorem handler_outcome:
  assumes "get_data request \<noteq> []" and "get_json request = PDict kvs"
    and "map_of kvs ''project'' = Some project" and "map_of kvs ''zone'' = Some zone"
    and "truthy project" and "truthy zone"
    and "w0 = print_stderr [Lit ''Received request payload: project='', Fmt project,
                            Lit '', zone='', Fmt zone] w"
  shows
    "((fst (main env request w) =
        Inr \<lparr>status = 200, body = [(''message'', ''Snapshots created successfully'')]\<rparr>) =
      (\<exists>w'. create_snapshots_for_all_disks env project zone w0 = (Inr (), w'))) \<and>
     ((\<exists>e. fst (main env request w) =
        Inr \<lparr>status = 500,
             body = [(''error'', ''Snapshot creation failed: '' @ exc_str e)]\<rparr>) =
      (\<exists>e w'. create_snapshots_for_all_disks env project zone w0 = (Inl e, w'))) \<and>
     (\<forall>e w'. create_snapshots_for_all_disks env project zone w0 = (Inl e, w') \<longrightarrow>
        fst (main env request w) =
        Inr \<lparr>status = 500,
             body = [(''error'', ''Snapshot creation failed: '' @ exc_str e)]\<rparr>) \<and>
     ((\<exists>w'. create_snapshots_for_all_disks env project zone w0 = (Inr (), w')) =
      (\<exists>disks w'. list_disks env project zone PNone w0 = (Inr disks, w')))"
proof -
  note m = main_validated [OF assms(1-6), of env w, folded assms(7)]
  obtain r w' where run: "create_snapshots_for_all_disks env project zone w0 = (r, w')"
    by (cases "create_snapshots_for_all_disks env project zone w0")
  show ?thesis
  proof (cases r)
    case (Inl e)
    with run m show ?thesis
      by (auto simp add: orchestrator_returns_iff_listing [symmetric])
  next
    case (Inr u)
    with run m show ?thesis
      by (auto simp add: orchestrator_returns_iff_listing [symmetric])
  qed
qed

theorem handler_outcome_witness:
  "get_data sample_request \<noteq> [] \<and>
   get_json sample_request = PDict [(''project'', PStr ''p''), (''zone'', PStr ''z'')] \<and>
   truthy (PStr ''p'') \<and> truthy (PStr ''z'') \<and>
   fst (create_snapshot refusing_provider (PStr ''p'') ''boot-disk''
          ''boot-disk-march-2024-patching'' (PStr ''z'') PNone None PNone world0) =
     Inl (PyExc ''Conflict'' ''already exists'') \<and>
   fst (main refusing_provider sample_request world0) =
     Inr \<lparr>status = 200, body = [(''message'', ''Snapshots created successfully'')]\<rparr> \<and>
   fst (main failing_provider sample_request world0) =
     Inr \<lparr>status = 500,
          body = [(''error'', ''Snapshot creation failed: permission denied'')]\<rparr>"
proof -
  define w0 where "w0 = print_stderr [Lit ''Received request payload: project='',
    Fmt (PStr ''p''), Lit '', zone='', Fmt (PStr ''z'')] world0"
  have d: "get_data sample_request \<noteq> []" by (simp add: sample_request_def)
  have j: "get_json sample_request = PDict [(''project'', PStr ''p''), (''zone'', PStr ''z'')]"
    by (simp add: sample_request_def)
  have p: "map_of [(''project'', PStr ''p''), (''zone'', PStr ''z'')] ''project'' = Some (PStr ''p'')"
    by simp
  have z: "map_of [(''project'', PStr ''p''), (''zone'', PStr ''z'')] ''zone'' = Some (PStr ''z'')"
    by simp
  have tp: "truthy (PStr ''p'')" and tz: "truthy (PStr ''z'')" by simp_all
  have c: "fst (create_snapshot refusing_provider (PStr ''p'') ''boot-disk''
          ''boot-disk-march-2024-patching'' (PStr ''z'') PNone None PNone world0) =
     Inl (PyExc ''Conflict'' ''already exists'')"
    by (simp add: create_snapshot_def perform_def refusing_provider_def sample_provider_def
        world0_def Let_def)
  have l: "\<exists>disks w'. list_disks refusing_provider (PStr ''p'') (PStr ''z'') PNone w0 =
      (Inr disks, w')"
    by (simp add: list_disks_def perform_def refusing_provider_def)
  have f: "create_snapshots_for_all_disks failing_provider (PStr ''p'') (PStr ''z'') w0 =
      (Inl (PyExc ''Forbidden'' ''permission denied''),
       w0\<lparr>calls := calls w0 @ [DisksList (PStr ''p'') (PStr ''z'')]\<rparr>)"
    by (simp add: create_snapshots_for_all_disks_def list_disks_def perform_def
        failing_provider_def)
  note ok = handler_outcome [OF d j p z tp tz w0_def, of refusing_provider]
  note ko = handler_outcome [OF d j p z tp tz w0_def, of failing_provider]
  have 1: "fst (main refusing_provider sample_request world0) =
     Inr \<lparr>status = 200, body = [(''message'', ''Snapshots created successfully'')]\<rparr>"
    using ok l by blast
  have 2: "fst (main failing_provider sample_request world0) =
     Inr \<lparr>status = 500,
          body = [(''error'', ''Snapshot creation failed: permission denied'')]\<rparr>"
    using ko f by fastforce
  show ?thesis using d j tp tz c 1 2 by simp
qed

text \<open>
  C2, amended. For a request with a non-empty body that parses as a non-empty JSON object
  in which \<^verbatim>\<open>project\<close> or \<^verbatim>\<open>zone\<close> is absent or is the empty string, the handler
  answers 400 with the missing-field message; no call to the provider or the clock has
  been made and nothing has been written to the standard output, so the orchestrator
  has not run: a run for a truthy zone starts with the listing call, and the handler
  starts none for a falsy zone.
\<close>

theorem handler_missing_field:
  assumes "get_data request \<noteq> []" and "get_json request = PDict kvs" and "kvs \<noteq> []"
    and "map_of kvs ''project'' = None \<or> map_of kvs ''project'' = Some (PStr []) \<or>
         map_of kvs ''zone'' = None \<or> map_of kvs ''zone'' = Some (PStr [])"
  shows "fst (main env request w) =
      Inr \<lparr>status = 400,
           body = [(''error'', ''Missing 'project' or 'zone' in request'')]\<rparr> \<and>
    calls (snd (main env request w)) = calls w \<and>
    stdout (snd (main env request w)) = stdout w"
  using assms by (auto simp add: main_def print_stderr_def Let_def)

theorem handler_missing_field_witness:
  "get_data \<lparr>get_data = ''{\"project\": \"p\", \"zone\": \"\"}'',
             get_json = PDict [(''project'', PStr ''p''), (''zone'', PStr [])]\<rparr> \<noteq> [] \<and>
   map_of [(''project'', PStr ''p''), (''zone'', PStr [])] ''zone'' = Some (PStr []) \<and>
   fst (main sample_provider
     \<lparr>get_data = ''{\"project\": \"p\", \"zone\": \"\"}'',
      get_json = PDict [(''project'', PStr ''p''), (''zone'', PStr [])]\<rparr> world0) =
      Inr \<lparr>status = 400,
           body = [(''error'', ''Missing 'project' or 'zone' in request'')]\<rparr> \<and>
   calls (snd (main sample_provider
     \<lparr>get_data = ''{\"project\": \"p\", \"zone\": \"\"}'',
      get_json = PDict [(''project'', PStr ''p''), (''zone'', PStr [])]\<rparr> world0)) = [] \<and>
   fst (main sample_provider
     \<lparr>get_data = ''{\"zone\": \"z\"}'', get_json = PDict [(''zone'', PStr ''z'')]\<rparr> world0) =
      Inr \<lparr>status = 400,
           body = [(''error'', ''Missing 'project' or 'zone' in request'')]\<rparr>"
proof -
  have a: "get_data \<lparr>get_data = ''{\"project\": \"p\", \"zone\": \"\"}'',
             get_json = PDict [(''project'', PStr ''p''), (''zone'', PStr [])]\<rparr> \<noteq> []"
    by simp
  have b: "get_json \<lparr>get_data = ''{\"project\": \"p\", \"zone\": \"\"}'',
             get_json = PDict [(''project'', PStr ''p''), (''zone'', PStr [])]\<rparr> =
      PDict [(''project'', PStr ''p''), (''zone'', PStr [])]"
    by simp
  have c: "[(''project'', PStr ''p''), (''zone'', PStr [])] \<noteq> []" by simp
  have z: "map_of [(''project'', PStr ''p''), (''zone'', PStr [])] ''zone'' = Some (PStr [])"
    by simp
  have a': "get_data \<lparr>get_data = ''{\"zone\": \"z\"}'',
      get_json = PDict [(''zone'', PStr ''z'')]\<rparr> \<noteq> []"
    by simp
  have b': "get_json \<lparr>get_data = ''{\"zone\": \"z\"}'',
      get_json = PDict [(''zone'', PStr ''z'')]\<rparr> = PDict [(''zone'', PStr ''z'')]"
    by simp
  have c': "[(''zone'', PStr ''z'')] \<noteq> []" by simp
  have p': "map_of [(''zone'', PStr ''z'')] ''project'' = None" by simp
  show ?thesis
    using a z
      handler_missing_field [OF a b c, of sample_provider world0]
      handler_missing_field [OF a' b' c', of sample_provider world0] p'
    by (simp add: world0_def)
qed

text \<open>
  C2 as stated fails at the empty object \<^verbatim>\<open>{}\<close>, where \<^verbatim>\<open>project\<close> and \<^verbatim>\<open>zone\<close> are
  absent: the payload check before the extraction answers with the invalid-payload
  message.
\<close>

theorem handler_missing_field_counterexample:
  "get_data \<lparr>get_data = ''{}'', get_json = PDict []\<rparr> \<noteq> [] \<and>
   map_of ([] :: (string \<times> pyval) list) ''project'' = None \<and>
   main sample_provider \<lparr>get_data = ''{}'', get_json = PDict []\<rparr> world0 =
     (Inr \<lparr>status = 400, body = [(''error'', ''Invalid JSON payload'')]\<rparr>, world0) \<and>
   fst (main sample_provider \<lparr>get_data = ''{}'', get_json = PDict []\<rparr> world0) \<noteq>
     Inr \<lparr>status = 400,
          body = [(''error'', ''Missing 'project' or 'zone' in request'')]\<rparr>"
  by (simp add: main_def)

text \<open>
  C1. The body \<^verbatim>\<open>[1]\<close> is JSON and not an object.  It is truthy, so it passes the payload
  check, and the extraction of \<^verbatim>\<open>project\<close> raises an \<^verbatim>\<open>AttributeError\<close> outside the
  \<^verbatim>\<open>try\<close> statement: the handler returns no response at all.
\<close>

theorem handler_truthy_non_object_raises:
  "main env \<lparr>get_data = ''[1]'', get_json = PList [PInt 1]\<rparr> w =
     (Inl (PyExc ''AttributeError''
        (apos @ ''list'' @ apos @ '' object has no attribute '' @ apos @ ''get'' @ apos)),
      w)"
  by (simp add: main_def AttributeError_def)

theorem handler_truthy_non_object_raises_witness:
  "get_data \<lparr>get_data = ''[1]'', get_json = PList [PInt 1]\<rparr> \<noteq> [] \<and>
   truthy (PList [PInt 1]) \<and>
   main sample_provider \<lparr>get_data = ''[1]'', get_json = PList [PInt 1]\<rparr> world0 =
     (Inl (PyExc ''AttributeError''
        (apos @ ''list'' @ apos @ '' object has no attribute '' @ apos @ ''get'' @ apos)),
      world0)"
  using handler_truthy_non_object_raises [of sample_provider world0]
  by simp

text \<open>
  What the payload check does reject: every falsy value (\<^verbatim>\<open>None\<close> for a body that is
  not JSON, \<^verbatim>\<open>null\<close>, \<^verbatim>\<open>false\<close>, zero, and the empty string, array and object).  Every
  truthy value that is not an object raises instead.
\<close>

lemma main_falsy_json:
  assumes "get_data request \<noteq> []" and "\<not> truthy (get_json request)"
  shows "main env request w =
    (Inr \<lparr>status = 400, body = [(''error'', ''Invalid JSON payload'')]\<rparr>, w)"
  using assms by (simp add: main_def)

lemma main_truthy_non_dict:
  assumes "get_data request \<noteq> []" and "truthy (get_json request)"
    and "\<forall>kvs. get_json request \<noteq> PDict kvs"
  shows "\<exists>msg. main env request w = (Inl (AttributeError msg), w)"
  using assms by (cases "get_json request") (auto simp add: main_def)

end
